theory Spec2Isabelle
  imports Main "HOL-Library.Sublist"
begin

section \<open>Python values\<close>

text \<open>
  The fragment of Python's value universe that the modelled functions inspect:
  \<open>None\<close>, booleans, integers, strings, \<open>datetime\<close> instants, class objects
  (named by their qualified name), tuples, and any other object (opaque).
\<close>

datatype pyval =
    PNone
  | PBool bool
  | PInt int
  | PStr string
  | PDateTime int
  | PType string
  | PTuple "pyval list"
  | PObj string

datatype error =
    StopIteration
  | TypeError
  | NoResultFound
  | MultipleResultsFound
  | MissingArgument

section \<open>RdbStorageInterface: the public operations and the primitives they reach\<close>

text \<open>
  An entity instance is its class and its attribute dictionary: \<open>hasattr\<close> asks
  whether the dictionary has the key, and an attribute assignment is a map update.
\<close>

record entity =
  cls :: string
  attrs :: "string \<rightharpoonup> pyval"

definition hasattr :: "entity \<Rightarrow> string \<Rightarrow> bool" where
  "hasattr e k = (attrs e k \<noteq> None)"

definition setattr :: "entity \<Rightarrow> string \<Rightarrow> pyval \<Rightarrow> entity" where
  "setattr e k v = e\<lparr>attrs := (attrs e)(k \<mapsto> v)\<rparr>"

text \<open>
  The abstract methods (\<open>_ensure_connected\<close>, \<open>_add\<close>, \<open>_all\<close>, \<open>_find\<close>,
  \<open>_remove\<close>, \<open>_update\<close>, \<open>_execute\<close>) are implemented by concrete backends.
  The model records each call to one of them, with its arguments, in the order made:
  the state of the interface is the list of primitive calls so far. What \<open>_all\<close> and
  \<open>_find\<close> return is the backend's and is not modelled; \<open>all\<close> hands its query
  arguments (criteria, limit, offset, sort, raw, count) on unchanged, and the record of the
  call keeps the entity type only.
\<close>

type_synonym sql_params = "(string \<times> pyval) list"

datatype prim =
    EnsureConnected
  | PAdd entity
  | PAll string
  | PFind string string
  | PRemove entity
  | PUpdate entity
  | PExecute string "sql_params option"

type_synonym iface = "prim list"

definition ensure_connected :: "iface \<Rightarrow> iface" where
  "ensure_connected s = s @ [EnsureConnected]"

definition check_prerequisites :: "string \<Rightarrow> iface \<Rightarrow> iface" where
  "check_prerequisites entity_cls s = ensure_connected s"

definition add :: "entity \<Rightarrow> iface \<Rightarrow> iface" where
  "add e s = (check_prerequisites (cls e) s) @ [PAdd e]"

definition all :: "string \<Rightarrow> iface \<Rightarrow> iface" where
  "all entity_type s = (check_prerequisites entity_type s) @ [PAll entity_type]"

definition find :: "string \<Rightarrow> string \<Rightarrow> iface \<Rightarrow> iface" where
  "find uuid entity_type s = (check_prerequisites entity_type s) @ [PFind uuid entity_type]"

text \<open>
  \<open>remove\<close> and \<open>update\<close> assign to the entity object they were given, so they return
  the entity as the caller sees it afterwards. \<open>now\<close> is what \<open>datetime.now()\<close> reads.
\<close>

definition remove :: "pyval \<Rightarrow> entity \<Rightarrow> bool \<Rightarrow> iface \<Rightarrow> entity \<times> iface" where
  "remove now e force s =
     (let s1 = check_prerequisites (cls e) s in
      if hasattr e ''deleted_on'' \<and> \<not> force
      then (let e' = setattr e ''deleted_on'' now in (e', s1 @ [PUpdate e']))
      else (e, s1 @ [PRemove e]))"

definition update :: "pyval \<Rightarrow> entity \<Rightarrow> iface \<Rightarrow> entity \<times> iface" where
  "update now e s =
     (let s1 = check_prerequisites (cls e) s;
          e' = (if hasattr e ''updated_on''
                then setattr e ''updated_on'' now else e)
      in (e', s1 @ [PUpdate e']))"

definition execute :: "string \<Rightarrow> sql_params option \<Rightarrow> iface \<Rightarrow> iface" where
  "execute sql params s = s @ [PExecute sql params]"

text \<open>
  \<open>_generate_query\<close> renders a named template through the templating engine, which is
  outside the repository: \<open>gq\<close> stands for it, from the entity type, the template
  path and the extra parameters to the SQL text and the bound parameters.
\<close>

type_synonym genquery = "string \<Rightarrow> string \<Rightarrow> sql_params \<Rightarrow> string \<times> sql_params"

definition sql_prefix :: string where
  "sql_prefix = ''sql''"

definition run_template :: "genquery \<Rightarrow> string \<Rightarrow> string \<Rightarrow> sql_params \<Rightarrow> iface \<Rightarrow> iface" where
  "run_template gq entity_type template params s =
     (case gq entity_type (sql_prefix @ template) params of
        (sql, bound) \<Rightarrow> execute sql (Some bound) s)"

definition clear :: "genquery \<Rightarrow> string \<Rightarrow> iface \<Rightarrow> iface" where
  "clear gq entity_type s = run_template gq entity_type ''/truncate_table.sql'' [] s"

definition destroy :: "genquery \<Rightarrow> string \<Rightarrow> iface \<Rightarrow> iface" where
  "destroy gq entity_type s = run_template gq entity_type ''/drop_table.sql'' [] s"

definition create_table :: "genquery \<Rightarrow> string \<Rightarrow> iface \<Rightarrow> iface" where
  "create_table gq entity_type s =
     run_template gq entity_type ''/create_table.sql'' [(''entity'', PType entity_type)] s"

definition add_column :: "genquery \<Rightarrow> string \<Rightarrow> pyval \<Rightarrow> iface \<Rightarrow> iface" where
  "add_column gq entity_type column s =
     run_template gq entity_type ''/add_column.sql'' [(''column'', column)] s"

definition create_index :: "genquery \<Rightarrow> string \<Rightarrow> pyval \<Rightarrow> iface \<Rightarrow> iface" where
  "create_index gq entity_type index s =
     run_template gq entity_type ''/add_index.sql'' [(''index'', index)] s"

section \<open>RdbStorageInterface: columns and indexes derived from field metadata\<close>

text \<open>
  What \<open>dataclasses.fields\<close> and \<open>get_type_hints\<close> give for one field: its name, its
  resolved annotation and its metadata dictionary. An entity type is its fully qualified
  table name (\<open>_fqtn\<close>, computed by an external inflection library) and its fields in
  declaration order.
\<close>

record field =
  fname :: string
  ftype :: pyval
  metadata :: "string \<rightharpoonup> pyval"

record entity_type =
  fqtn :: string
  dfields :: "field list"

text \<open>
  Modelled from the spec: the classes \<open>Column\<close> and \<open>Index\<close> of rdb_repository.py are
  not among the sources. The spec has a Column describe a name, a semantic type, an optional
  length and an is-identifier flag, and an Index a table, an ordered list of column names and
  a uniqueness flag. A Column built without length and identifier flag has \<open>None\<close> and
  \<open>False\<close> there. The \<open>name\<close> attribute that \<open>get_entity_indexes\<close> reads from an
  Index is not described by the spec and is never passed to the constructor: the functions
  below take it as the parameter \<open>name_of\<close>.
\<close>

record column =
  col_name :: string
  col_type :: pyval
  col_length :: pyval
  col_is_id :: pyval

record index =
  idx_table :: string
  idx_columns :: "string list"
  idx_unique :: bool

record config =
  map_indexes :: bool
  map_all :: bool

definition startswith_underscore :: "string \<Rightarrow> bool" where
  "startswith_underscore s = (case s of [] \<Rightarrow> False | c # _ \<Rightarrow> c = CHR ''_'')"

definition metadata_get :: "field \<Rightarrow> string \<Rightarrow> pyval \<Rightarrow> pyval" where
  "metadata_get f k dflt = (case metadata f k of None \<Rightarrow> dflt | Some v \<Rightarrow> v)"

definition in_metadata :: "string \<Rightarrow> field \<Rightarrow> bool" where
  "in_metadata k f = (metadata f k \<noteq> None)"

definition column_of :: "field \<Rightarrow> column" where
  "column_of f =
     \<lparr>col_name = fname f, col_type = ftype f,
      col_length = metadata_get f ''length'' PNone,
      col_is_id = metadata_get f ''id'' (PBool False)\<rparr>"

fun columns_loop :: "config \<Rightarrow> field list \<Rightarrow> column list \<Rightarrow> column list" where
  "columns_loop cfg [] ret = ret"
| "columns_loop cfg (f # fs) ret =
     (if startswith_underscore (fname f) then columns_loop cfg fs ret
      else if map_all cfg then columns_loop cfg fs (ret @ [column_of f])
      else if map_indexes cfg \<and> in_metadata ''index'' f then columns_loop cfg fs (ret @ [column_of f])
      else if in_metadata ''id'' f then columns_loop cfg fs (ret @ [column_of f])
      else columns_loop cfg fs ret)"

text \<open>Python's \<open>list.insert(i, x)\<close> for a non-negative position: past the end it appends.\<close>

definition list_insert :: "nat \<Rightarrow> 'a \<Rightarrow> 'a list \<Rightarrow> 'a list" where
  "list_insert i x xs = take i xs @ [x] @ drop i xs"

definition document_column :: column where
  "document_column =
     \<lparr>col_name = ''document'', col_type = PStr ''str'', col_length = PNone, col_is_id = PBool False\<rparr>"

definition get_entity_columns :: "config \<Rightarrow> entity_type \<Rightarrow> column list" where
  "get_entity_columns cfg entity =
     (let ret = columns_loop cfg (dfields entity) []
      in if \<not> map_all cfg then list_insert 1 document_column ret else ret)"

text \<open>
  \<open>get_entity_indexes\<close>. \<open>next(filter(...))\<close> is called without a default, so it raises
  \<open>StopIteration\<close> when no Index in \<open>ret\<close> has the name. When one has, \<open>idx\<close> is that
  object (an instance of a plain class, so \<open>not idx\<close> is false) and the assignments to it
  change the element of \<open>ret\<close> in place.
\<close>

definition str_replace :: "char \<Rightarrow> char \<Rightarrow> string \<Rightarrow> string" where
  "str_replace a b s = map (\<lambda>c. if c = a then b else c) s"

definition is_unique :: "field \<Rightarrow> bool" where
  "is_unique f = (metadata_get f ''unique'' (PBool False) = PBool True)"

fun update_first :: "('a \<Rightarrow> bool) \<Rightarrow> ('a \<Rightarrow> 'a) \<Rightarrow> 'a list \<Rightarrow> 'a list" where
  "update_first p g [] = []"
| "update_first p g (x # xs) = (if p x then g x # xs else x # update_first p g xs)"

definition merge_into :: "field \<Rightarrow> index \<Rightarrow> index" where
  "merge_into f idx =
     (let idx1 = idx\<lparr>idx_columns := idx_columns idx @ [fname f]\<rparr>
      in if is_unique f \<and> idx_unique idx1 = False then idx1\<lparr>idx_unique := True\<rparr> else idx1)"

fun indexes_loop ::
  "(index \<Rightarrow> pyval) \<Rightarrow> string \<Rightarrow> field list \<Rightarrow> index list \<Rightarrow> error + index list" where
  "indexes_loop name_of tbl [] ret = Inr ret"
| "indexes_loop name_of tbl (f # fs) ret =
     (case metadata f ''index'' of
        None \<Rightarrow> indexes_loop name_of tbl fs ret
      | Some v \<Rightarrow>
          if v = PBool True
          then indexes_loop name_of tbl fs
                 (ret @ [\<lparr>idx_table = tbl, idx_columns = [fname f], idx_unique = is_unique f\<rparr>])
          else (case v of
                  PStr name \<Rightarrow>
                    (case filter (\<lambda>i. name_of i = PStr name) ret of
                       [] \<Rightarrow> Inl StopIteration
                     | idx # _ \<Rightarrow>
                         indexes_loop name_of tbl fs
                           (update_first (\<lambda>i. name_of i = PStr name) (merge_into f) ret))
                | _ \<Rightarrow> indexes_loop name_of tbl fs ret))"

definition get_entity_indexes :: "(index \<Rightarrow> pyval) \<Rightarrow> entity_type \<Rightarrow> error + index list" where
  "get_entity_indexes name_of entity =
     indexes_loop name_of (str_replace (CHR ''.'') (CHR ''_'') (fqtn entity)) (dfields entity) []"

section \<open>Event: string form and equality\<close>





section \<open>QueryService\<close>

text \<open>
  Modelled from the spec: the \<open>Repository\<close> that the registry returns is not among the
  sources. The spec has \<open>filter\<close> produce a lazy collection evaluated against storage when
  it is iterated, \<open>len\<close> run a count query, the sort be delegated to storage, and a slice
  bound the fetch (\<open>all(entity_type, criteria, limit, offset, sort, ...)\<close> of the storage
  interface takes them together); the fetch returns the matching rows, sorted, from the
  offset on, at most the limit. So a repository is the stored rows with the criteria, the
  slice and the sort asked for so far, and \<open>list\<close> runs the fetch.
\<close>

record ('e, 'c, 's) repository =
  repo_rows :: "'e list"
  repo_criteria :: "'c option"
  repo_slice :: "(int \<times> int) option"
  repo_sort :: "'s option"

definition registry :: "'e list \<Rightarrow> ('e, 'c, 's) repository" where
  "registry stored = \<lparr>repo_rows = stored, repo_criteria = None, repo_slice = None, repo_sort = None\<rparr>"

definition filter_repo :: "'c \<Rightarrow> ('e, 'c, 's) repository \<Rightarrow> ('e, 'c, 's) repository" where
  "filter_repo c r = r\<lparr>repo_criteria := Some c\<rparr>"

definition getitem_slice :: "int \<Rightarrow> int \<Rightarrow> ('e, 'c, 's) repository \<Rightarrow> ('e, 'c, 's) repository" where
  "getitem_slice start stop r = r\<lparr>repo_slice := Some (start, stop)\<rparr>"

definition sort_repo :: "'s \<Rightarrow> ('e, 'c, 's) repository \<Rightarrow> ('e, 'c, 's) repository" where
  "sort_repo k r = r\<lparr>repo_sort := Some k\<rparr>"

definition matching :: "('c \<Rightarrow> 'e \<Rightarrow> bool) \<Rightarrow> ('e, 'c, 's) repository \<Rightarrow> 'e list" where
  "matching matches r =
     (case repo_criteria r of None \<Rightarrow> repo_rows r | Some c \<Rightarrow> filter (matches c) (repo_rows r))"

definition len_repo :: "('c \<Rightarrow> 'e \<Rightarrow> bool) \<Rightarrow> ('e, 'c, 's) repository \<Rightarrow> int" where
  "len_repo matches r = int (length (matching matches r))"

definition sorted_rows :: "('s \<Rightarrow> 'e list \<Rightarrow> 'e list) \<Rightarrow> 's option \<Rightarrow> 'e list \<Rightarrow> 'e list" where
  "sorted_rows order k xs = (case k of None \<Rightarrow> xs | Some k' \<Rightarrow> order k' xs)"

definition bounded_rows :: "(int \<times> int) option \<Rightarrow> 'e list \<Rightarrow> 'e list" where
  "bounded_rows b xs =
     (case b of None \<Rightarrow> xs | Some (start, stop) \<Rightarrow> take (nat (stop - start)) (drop (nat start) xs))"

definition list_repo ::
  "('c \<Rightarrow> 'e \<Rightarrow> bool) \<Rightarrow> ('s \<Rightarrow> 'e list \<Rightarrow> 'e list) \<Rightarrow> ('e, 'c, 's) repository \<Rightarrow> 'e list" where
  "list_repo matches order r =
     bounded_rows (repo_slice r) (sorted_rows order (repo_sort r) (matching matches r))"

text \<open>
  Modelled from the spec: \<open>find\<close> of the missing Repository fails with \<open>NoResultFound\<close> if
  no row has the identifier and with \<open>MultipleResultsFound\<close> if more than one has.
\<close>

definition find_repo :: "('e \<Rightarrow> 'i) \<Rightarrow> 'i \<Rightarrow> ('e, 'c, 's) repository \<Rightarrow> error + 'e" where
  "find_repo id_of i r =
     (case filter (\<lambda>e. id_of e = i) (repo_rows r) of
        [] \<Rightarrow> Inl NoResultFound
      | [e] \<Rightarrow> Inr e
      | _ \<Rightarrow> Inl MultipleResultsFound)"

text \<open>
  Modelled from the spec: the \<open>Envelope\<close> class is not among the sources. The spec has it
  carry the items, the offset, the limit and the total count; \<open>wrap\<close> holds the items and
  \<open>set_range\<close> stores its three arguments as offset, limit and total.
\<close>

record 'e envelope =
  env_items :: "'e list"
  env_offset :: "int option"
  env_limit :: "int option"
  env_total :: "int option"

definition wrap :: "'e list \<Rightarrow> 'e envelope" where
  "wrap xs = \<lparr>env_items = xs, env_offset = None, env_limit = None, env_total = None\<rparr>"

definition set_range :: "int \<Rightarrow> int \<Rightarrow> int \<Rightarrow> 'e envelope \<Rightarrow> 'e envelope" where
  "set_range lower upper total_count env =
     env\<lparr>env_offset := Some lower, env_limit := Some upper, env_total := Some total_count\<rparr>"

text \<open>
  The keyword arguments of a call. A key that is absent is \<open>None\<close>; \<open>limit\<close> and
  \<open>offset\<close> may be present with the value \<open>None\<close> (\<open>Some None\<close>), which the service
  tests for, and are integers otherwise. \<open>criteria\<close> arrives serialized (a string) or as
  the nested mapping itself. The serializer, \<open>BinaryOp.from_dict\<close>, the meaning of a
  criteria tree on an entity, the entity's identifier and the ordering that storage applies
  for a sort argument come from outside the sources and are parameters.
\<close>

datatype 'd criteria_arg = Serialized string | Mapping 'd

record ('i, 'd, 's) kwargs =
  kw_id :: "'i option"
  kw_limit :: "int option option"
  kw_offset :: "int option option"
  kw_criteria :: "'d criteria_arg option"
  kw_sort :: "'s option"

record ('e, 'i, 'd, 'c, 's) deps =
  id_of :: "'e \<Rightarrow> 'i"
  deserialize :: "string \<Rightarrow> 'd"
  from_dict :: "'d \<Rightarrow> 'c"
  matches :: "'c \<Rightarrow> 'e \<Rightarrow> bool"
  order_by :: "'s \<Rightarrow> 'e list \<Rightarrow> 'e list"

datatype 'e response = Found 'e | Plain "'e list" | Enveloped "'e envelope"

definition query_service ::
  "('e, 'i, 'd, 'c, 's) deps \<Rightarrow> 'e list \<Rightarrow> ('i, 'd, 's) kwargs \<Rightarrow> error + 'e response" where
  "query_service d stored kw =
     (case kw_id kw of
        Some i \<Rightarrow>
          (case find_repo (id_of d) i (registry stored :: ('e, 'c, 's) repository) of
             Inl err \<Rightarrow> Inl err
           | Inr e \<Rightarrow> Inr (Found e))
      | None \<Rightarrow>
          (let (limit, offset) =
                 (if kw_limit kw \<noteq> None \<and> kw_offset kw \<noteq> None
                  then (case kw_limit kw of None \<Rightarrow> None | Some v \<Rightarrow> v,
                        case kw_offset kw of None \<Rightarrow> None | Some v \<Rightarrow> v)
                  else (None, None));
               entities0 = (registry stored :: ('e, 'c, 's) repository);
               entities1 =
                 (case kw_criteria kw of
                    None \<Rightarrow> entities0
                  | Some criteria \<Rightarrow>
                      (let criteria1 = (case criteria of Serialized str \<Rightarrow> deserialize d str
                                                       | Mapping m \<Rightarrow> m)
                       in filter_repo (from_dict d criteria1) (registry stored)));
               (entities2, paginated, count) =
                 (case (limit, offset) of
                    (Some l, Some off) \<Rightarrow>
                      (getitem_slice off (off + l) entities1, True, Some (len_repo (matches d) entities1))
                  | _ \<Rightarrow> (entities1, False, None));
               entities3 =
                 (case kw_sort kw of None \<Rightarrow> entities2 | Some k \<Rightarrow> sort_repo k entities2);
               result = list_repo (matches d) (order_by d) entities3
           in (case (paginated, limit, offset, count) of
                 (True, Some l, Some off, Some n) \<Rightarrow> Inr (Enveloped (set_range off l (n - 1) (wrap result)))
               | _ \<Rightarrow> Inr (Plain result))))"

section \<open>Example inputs\<close>

definition user_row :: entity where
  "user_row =
     \<lparr>cls = ''iam.User'',
      attrs = [''name'' \<mapsto> PStr ''foo'', ''deleted_on'' \<mapsto> PNone, ''updated_on'' \<mapsto> PNone]\<rparr>"

definition plain_row :: entity where
  "plain_row = \<lparr>cls = ''iam.Role'', attrs = [''name'' \<mapsto> PStr ''admin'']\<rparr>"

definition id_field :: field where
  "id_field = \<lparr>fname = ''id'', ftype = PType ''str'', metadata = [''id'' \<mapsto> PBool True, ''length'' \<mapsto> PInt 36]\<rparr>"

definition name_field :: field where
  "name_field = \<lparr>fname = ''name'', ftype = PType ''str'', metadata = [''index'' \<mapsto> PBool True]\<rparr>"

definition email_field :: field where
  "email_field = \<lparr>fname = ''email'', ftype = PType ''str'', metadata = Map.empty\<rparr>"

definition private_id_field :: field where
  "private_id_field = \<lparr>fname = ''_key'', ftype = PType ''str'', metadata = [''id'' \<mapsto> PBool True]\<rparr>"

definition user_type :: entity_type where
  "user_type = \<lparr>fqtn = ''iam.users'', dfields = [id_field, name_field, email_field]\<rparr>"

definition keyed_type :: entity_type where
  "keyed_type = \<lparr>fqtn = ''iam.keys'', dfields = [private_id_field]\<rparr>"

definition document_mode :: config where
  "document_mode = \<lparr>map_indexes = True, map_all = False\<rparr>"

text \<open>The fields that \<open>get_entity_columns\<close> gives a column of their own.\<close>

definition selected :: "config \<Rightarrow> field \<Rightarrow> bool" where
  "selected cfg f =
     (\<not> startswith_underscore (fname f) \<and>
      (map_all cfg \<or> (map_indexes cfg \<and> in_metadata ''index'' f) \<or> in_metadata ''id'' f))"

definition idx_name_field :: field where
  "idx_name_field = \<lparr>fname = ''name'', ftype = PType ''str'', metadata = [''index'' \<mapsto> PStr ''idx_name_email'']\<rparr>"

definition idx_email_field :: field where
  "idx_email_field = \<lparr>fname = ''email'', ftype = PType ''str'',
      metadata = [''index'' \<mapsto> PStr ''idx_name_email'', ''unique'' \<mapsto> PBool True]\<rparr>"

definition contact_type :: entity_type where
  "contact_type = \<lparr>fqtn = ''iam.contacts'', dfields = [idx_name_field, idx_email_field]\<rparr>"


text \<open>
  A small instance for the query service: the entities are numbers, each its own identifier;
  a criteria tree is a lower bound; the sort argument says whether the order is descending.
\<close>

definition example_deps :: "(nat, nat, nat, nat, bool) deps" where
  "example_deps =
     \<lparr>id_of = (\<lambda>e. e), deserialize = length, from_dict = (\<lambda>m. m),
      matches = (\<lambda>c e. c \<le> e),
      order_by = (\<lambda>descending xs. if descending then rev (sort xs) else sort xs)\<rparr>"

text \<open>
  The entities that match the criteria of a call, all of them when it has none: what the
  unpaginated call lists.
\<close>

definition matching_rows :: "('e, 'i, 'd, 'c, 's) deps \<Rightarrow> 'e list \<Rightarrow> ('i, 'd, 's) kwargs \<Rightarrow> 'e list" where
  "matching_rows d stored kw =
     (case kw_criteria kw of
        None \<Rightarrow> stored
      | Some (Serialized str) \<Rightarrow> filter (matches d (from_dict d (deserialize d str))) stored
      | Some (Mapping m) \<Rightarrow> filter (matches d (from_dict d m)) stored)"

section \<open>Soft and hard delete\<close>

text \<open>
  C4. For an entity that has a \<open>deleted_on\<close> attribute, \<open>remove\<close> without \<open>force\<close> sets the
  attribute to the current time and calls \<open>_update\<close> with the entity, and calls no
  \<open>_remove\<close>; with \<open>force\<close>, or for an entity without the attribute, it calls \<open>_remove\<close>
  and leaves the entity as it is. Either way \<open>_ensure_connected\<close> comes first.
\<close>

theorem remove_soft_or_hard:
  "(hasattr e ''deleted_on'' \<and> \<not> force \<longrightarrow>
      remove now e force s =
        (setattr e ''deleted_on'' now, s @ [EnsureConnected, PUpdate (setattr e ''deleted_on'' now)])
      \<and> attrs (fst (remove now e force s)) ''deleted_on'' = Some now
      \<and> PRemove e \<notin> set (drop (length s) (snd (remove now e force s))))
   \<and> (force \<or> \<not> hasattr e ''deleted_on'' \<longrightarrow>
      remove now e force s = (e, s @ [EnsureConnected, PRemove e]))"
  by (auto simp: remove_def check_prerequisites_def ensure_connected_def setattr_def Let_def)

theorem remove_soft_or_hard_witness:
  "remove (PDateTime 1600000000) user_row False [] =
     (setattr user_row ''deleted_on'' (PDateTime 1600000000),
      [EnsureConnected, PUpdate (setattr user_row ''deleted_on'' (PDateTime 1600000000))])
   \<and> remove (PDateTime 1600000000) user_row True [] = (user_row, [EnsureConnected, PRemove user_row])
   \<and> remove (PDateTime 1600000000) plain_row False [] = (plain_row, [EnsureConnected, PRemove plain_row])"
proof -
  have soft: "hasattr user_row ''deleted_on'' \<and> \<not> False"
    by (simp add: hasattr_def user_row_def)
  have hard: "\<not> hasattr plain_row ''deleted_on''"
    by (simp add: hasattr_def plain_row_def)
  show ?thesis
    using soft hard
      remove_soft_or_hard [of user_row False "PDateTime 1600000000" "[]"]
      remove_soft_or_hard [of user_row True "PDateTime 1600000000" "[]"]
      remove_soft_or_hard [of plain_row False "PDateTime 1600000000" "[]"]
    by simp
qed

section \<open>The frame of update\<close>

text \<open>
  C9. \<open>update\<close> changes at most the \<open>updated_on\<close> attribute of the entity: every other
  attribute, \<open>deleted_on\<close> among them, and the class are as before; \<open>updated_on\<close> is the
  current time when the entity has the attribute, and an entity without it is unchanged.
  The entity so changed is then handed to \<open>_update\<close>, after \<open>_ensure_connected\<close>.
\<close>

theorem update_frame:
  assumes "update now e s = (e', s')"
  shows "cls e' = cls e
    \<and> (\<forall>k. k \<noteq> ''updated_on'' \<longrightarrow> attrs e' k = attrs e k)
    \<and> (hasattr e ''updated_on'' \<longrightarrow> attrs e' ''updated_on'' = Some now)
    \<and> (\<not> hasattr e ''updated_on'' \<longrightarrow> e' = e)
    \<and> s' = s @ [EnsureConnected, PUpdate e']"
  using assms
  by (auto simp: update_def check_prerequisites_def ensure_connected_def setattr_def Let_def
           split: if_splits)

theorem update_frame_witness:
  "attrs (fst (update (PDateTime 1600000000) user_row [])) ''deleted_on'' = Some PNone
   \<and> attrs (fst (update (PDateTime 1600000000) user_row [])) ''name'' = Some (PStr ''foo'')
   \<and> attrs (fst (update (PDateTime 1600000000) user_row [])) ''updated_on'' = Some (PDateTime 1600000000)
   \<and> fst (update (PDateTime 1600000000) plain_row []) = plain_row"
proof -
  have u: "update (PDateTime 1600000000) user_row [] =
      (fst (update (PDateTime 1600000000) user_row []), snd (update (PDateTime 1600000000) user_row []))"
    by simp
  have p: "update (PDateTime 1600000000) plain_row [] =
      (fst (update (PDateTime 1600000000) plain_row []), snd (update (PDateTime 1600000000) plain_row []))"
    by simp
  have hu: "hasattr user_row ''updated_on''" by (simp add: hasattr_def user_row_def)
  have hp: "\<not> hasattr plain_row ''updated_on''" by (simp add: hasattr_def plain_row_def)
  show ?thesis
    using update_frame [OF u] update_frame [OF p] hu hp
    by (simp add: user_row_def)
qed

section \<open>Connection discipline\<close>

text \<open>
  C7. The claim has every public operation call \<open>_ensure_connected\<close> before it touches
  storage. \<open>execute\<close> on an interface that has made no call yet reaches \<open>_execute\<close>
  directly, and so do \<open>clear\<close>, \<open>destroy\<close>, \<open>create_table\<close>, \<open>add_column\<close> and
  \<open>create_index\<close>, which go through \<open>execute\<close>; \<open>add\<close>, \<open>all\<close> and \<open>find\<close>,
  beside them, connect first (as \<open>remove\<close> and \<open>update\<close> do, above).
\<close>

theorem execute_skips_ensure_connected:
  "execute ''SELECT 1'' None [] = [PExecute ''SELECT 1'' None]
   \<and> EnsureConnected \<notin> set (execute ''SELECT 1'' None [])
   \<and> EnsureConnected \<notin> set (clear gq ''iam.User'' [])
   \<and> EnsureConnected \<notin> set (destroy gq ''iam.User'' [])
   \<and> EnsureConnected \<notin> set (create_table gq ''iam.User'' [])
   \<and> EnsureConnected \<notin> set (add_column gq ''iam.User'' col [])
   \<and> EnsureConnected \<notin> set (create_index gq ''iam.User'' idx [])
   \<and> add e [] = [EnsureConnected, PAdd e]
   \<and> all ''iam.User'' [] = [EnsureConnected, PAll ''iam.User'']
   \<and> find uuid ''iam.User'' [] = [EnsureConnected, PFind uuid ''iam.User'']"
  by (simp add: execute_def clear_def destroy_def create_table_def add_column_def
        create_index_def run_template_def add_def all_def find_def
        check_prerequisites_def ensure_connected_def split: prod.split)

section \<open>Columns derived from field metadata\<close>

lemma columns_loop_filter:
  "columns_loop cfg fs ret = ret @ map column_of (filter (selected cfg) fs)"
  by (induction fs arbitrary: ret) (auto simp: selected_def)

lemma get_entity_columns_eq:
  "get_entity_columns cfg entity =
     (if map_all cfg then map column_of (filter (selected cfg) (dfields entity))
      else list_insert 1 document_column (map column_of (filter (selected cfg) (dfields entity))))"
  by (simp add: get_entity_columns_def columns_loop_filter Let_def)

lemma set_list_insert: "set (list_insert i x xs) = insert x (set xs)"
proof -
  have "set (take i xs) \<union> set (drop i xs) = set xs"
    by (metis append_take_drop_id set_append)
  then show ?thesis by (auto simp: list_insert_def)
qed

lemma length_list_insert: "length (list_insert i x xs) = Suc (length xs)"
  by (simp add: list_insert_def)

text \<open>
  C5, as stated, for an entity type whose identifier field has a name starting with an
  underscore: the field carries the \<open>id\<close> tag, and the columns in document mode are the
  \<open>document\<close> column alone, so the field has no column.
\<close>

theorem private_id_field_has_no_column:
  "in_metadata ''id'' private_id_field
   \<and> get_entity_columns document_mode keyed_type = [document_column]
   \<and> column_of private_id_field \<notin> set (get_entity_columns document_mode keyed_type)"
  by (simp add: in_metadata_def private_id_field_def get_entity_columns_def keyed_type_def
        document_mode_def startswith_underscore_def list_insert_def column_of_def document_column_def)

text \<open>
  C5, amended. When \<open>map_all\<close> is off, every field whose name does not start with an
  underscore and whose metadata has the \<open>id\<close> key (or the \<open>index\<close> key, when
  \<open>map_indexes\<close> is on) has its column in the result; the result is those columns in
  field order with one more column, named \<open>document\<close> and of type \<open>'str'\<close>, inserted at
  position 1; and every column of the result is that one or the column of a field that
  has the \<open>id\<close> or the \<open>index\<close> key.
\<close>

theorem get_entity_columns_document_mode:
  assumes "\<not> map_all cfg"
  shows "(\<forall>f \<in> set (dfields entity).
            \<not> startswith_underscore (fname f) \<and>
            (in_metadata ''id'' f \<or> (map_indexes cfg \<and> in_metadata ''index'' f))
            \<longrightarrow> column_of f \<in> set (get_entity_columns cfg entity))
     \<and> get_entity_columns cfg entity =
         list_insert 1 document_column
           (map column_of
              (filter (\<lambda>f. \<not> startswith_underscore (fname f) \<and>
                        ((map_indexes cfg \<and> in_metadata ''index'' f) \<or> in_metadata ''id'' f))
                 (dfields entity)))
     \<and> col_name document_column = ''document'' \<and> col_type document_column = PStr ''str''
     \<and> (\<forall>c \<in> set (get_entity_columns cfg entity).
            c = document_column \<or>
            (\<exists>f \<in> set (dfields entity).
               c = column_of f \<and> (in_metadata ''id'' f \<or> in_metadata ''index'' f)))"
proof -
  have sel: "selected cfg = (\<lambda>f. \<not> startswith_underscore (fname f) \<and>
       ((map_indexes cfg \<and> in_metadata ''index'' f) \<or> in_metadata ''id'' f))"
    using assms by (auto simp: selected_def fun_eq_iff)
  have eq: "get_entity_columns cfg entity =
      list_insert 1 document_column (map column_of (filter (selected cfg) (dfields entity)))"
    using assms by (simp add: get_entity_columns_eq)
  have a: "\<forall>f \<in> set (dfields entity).
            \<not> startswith_underscore (fname f) \<and>
            (in_metadata ''id'' f \<or> (map_indexes cfg \<and> in_metadata ''index'' f))
            \<longrightarrow> column_of f \<in> set (get_entity_columns cfg entity)"
    by (auto simp: eq set_list_insert selected_def)
  have c: "\<forall>c \<in> set (get_entity_columns cfg entity).
            c = document_column \<or>
            (\<exists>f \<in> set (dfields entity).
               c = column_of f \<and> (in_metadata ''id'' f \<or> in_metadata ''index'' f))"
    using assms by (auto simp: eq set_list_insert selected_def)
  show ?thesis
    using a c eq by (simp add: sel document_column_def)
qed

theorem get_entity_columns_document_mode_witness:
  "get_entity_columns document_mode user_type =
     [column_of id_field, document_column, column_of name_field]"
proof -
  have h: "\<not> map_all document_mode" by (simp add: document_mode_def)
  show ?thesis
    using get_entity_columns_document_mode [OF h, of user_type]
    by (simp add: document_mode_def user_type_def id_field_def name_field_def email_field_def
          in_metadata_def startswith_underscore_def list_insert_def)
qed

text \<open>
  C6. \<open>get_entity_columns\<close> takes no interface state and returns none: its result is a
  function of the mapping flags and the fields alone, so two entity types with the same
  fields (two calls on the same type among them) get equal column lists. The result is the
  columns of a subsequence of the fields, in declaration order, with the \<open>document\<close>
  column inserted at position 1 when \<open>map_all\<close> is off.
\<close>

theorem get_entity_columns_pure_ordered:
  "(dfields entity' = dfields entity \<longrightarrow> get_entity_columns cfg entity' = get_entity_columns cfg entity)
   \<and> (\<exists>fs. subseq fs (dfields entity) \<and>
         get_entity_columns cfg entity =
           (if map_all cfg then map column_of fs
            else list_insert 1 document_column (map column_of fs)))"
proof -
  have "subseq (filter (selected cfg) (dfields entity)) (dfields entity)"
    by simp
  then have "\<exists>fs. subseq fs (dfields entity) \<and>
         get_entity_columns cfg entity =
           (if map_all cfg then map column_of fs
            else list_insert 1 document_column (map column_of fs))"
    using get_entity_columns_eq by blast
  then show ?thesis
    by (simp add: get_entity_columns_def)
qed

theorem get_entity_columns_pure_ordered_witness:
  "get_entity_columns document_mode (user_type\<lparr>fqtn := ''other.table''\<rparr>) =
     get_entity_columns document_mode user_type
   \<and> map col_name (get_entity_columns \<lparr>map_indexes = False, map_all = True\<rparr> user_type) =
       [''id'', ''name'', ''email'']"
proof -
  have h: "dfields (user_type\<lparr>fqtn := ''other.table''\<rparr>) = dfields user_type" by simp
  have "map col_name (get_entity_columns \<lparr>map_indexes = False, map_all = True\<rparr> user_type) =
       [''id'', ''name'', ''email'']"
    by (simp add: get_entity_columns_def user_type_def id_field_def name_field_def email_field_def
          startswith_underscore_def column_of_def)
  then show ?thesis
    using h get_entity_columns_pure_ordered [of "user_type\<lparr>fqtn := ''other.table''\<rparr>" user_type document_mode]
    by simp
qed


section \<open>Named composite indexes\<close>

lemma first_named_index_raises:
  assumes "metadata f ''index'' = Some (PStr n)"
  shows "get_entity_indexes name_of \<lparr>fqtn = t, dfields = f # fs\<rparr> = Inl StopIteration"
  using assms by (simp add: get_entity_indexes_def)

text \<open>
  C1. The claim has two fields tagged with the index name \<open>idx_name_email\<close> merge into
  one Index with the columns \<open>name\<close>, \<open>email\<close>. On that entity type the first tagged
  field finds no Index of the name in the empty result list, and \<open>next\<close> raises
  \<open>StopIteration\<close>, whatever the \<open>name\<close> attribute of an Index reads.
\<close>

theorem named_index_raises_stop_iteration:
  "get_entity_indexes name_of contact_type = Inl StopIteration"
  by (simp add: get_entity_indexes_def contact_type_def idx_name_field_def)

section \<open>Event equality\<close>





section \<open>Pagination in the query service\<close>

lemma query_service_paginated:
  fixes d :: "('e, 'i, 'd, 'c, 's) deps"
  assumes "kw_id kw = None" "kw_limit kw = Some (Some l)" "kw_offset kw = Some (Some off)"
  shows "query_service d stored kw =
     Inr (Enveloped
       \<lparr>env_items = take (nat l) (drop (nat off)
            (sorted_rows (order_by d) (kw_sort kw) (matching_rows d stored kw))),
        env_offset = Some off, env_limit = Some l,
        env_total = Some (int (length (matching_rows d stored kw)) - 1)\<rparr>)"
proof -
  have lo: "(if kw_limit kw \<noteq> None \<and> kw_offset kw \<noteq> None
                  then (case kw_limit kw of None \<Rightarrow> None | Some v \<Rightarrow> v,
                        case kw_offset kw of None \<Rightarrow> None | Some v \<Rightarrow> v)
                  else (None, None)) = (Some l, Some off)"
    using assms by simp
  show ?thesis
    unfolding query_service_def lo
    by (simp add: assms(1) Let_def list_repo_def len_repo_def bounded_rows_def
      getitem_slice_def sort_repo_def wrap_def set_range_def registry_def filter_repo_def
      sorted_rows_def matching_def matching_rows_def split: option.split criteria_arg.split)
qed

lemma query_service_unpaginated:
  fixes d :: "('e, 'i, 'd, 'c, 's) deps"
  assumes "kw_id kw = None"
    and lo: "(if kw_limit kw \<noteq> None \<and> kw_offset kw \<noteq> None
                  then (case kw_limit kw of None \<Rightarrow> None | Some v \<Rightarrow> v,
                        case kw_offset kw of None \<Rightarrow> None | Some v \<Rightarrow> v)
                  else (None, None)) = (None, None)"
  shows "query_service d stored kw =
     Inr (Plain (sorted_rows (order_by d) (kw_sort kw) (matching_rows d stored kw)))"
  unfolding query_service_def lo
  by (simp add: assms(1) Let_def list_repo_def len_repo_def bounded_rows_def
      getitem_slice_def sort_repo_def wrap_def set_range_def registry_def filter_repo_def
      sorted_rows_def matching_def matching_rows_def split: option.split criteria_arg.split)

lemma query_service_plain:
  fixes d :: "('e, 'i, 'd, 'c, 's) deps"
  assumes "kw_id kw = None" "kw_limit kw = None \<or> kw_offset kw = None"
  shows "query_service d stored kw =
     Inr (Plain (sorted_rows (order_by d) (kw_sort kw) (matching_rows d stored kw)))"
proof (rule query_service_unpaginated [OF assms(1)])
  show "(if kw_limit kw \<noteq> None \<and> kw_offset kw \<noteq> None
                  then (case kw_limit kw of None \<Rightarrow> None | Some v \<Rightarrow> v,
                        case kw_offset kw of None \<Rightarrow> None | Some v \<Rightarrow> v)
                  else (None, None)) = (None, None)"
    using assms(2) by auto
qed

lemma query_service_enveloped_only:
  fixes d :: "('e, 'i, 'd, 'c, 's) deps"
  assumes "query_service d stored kw = Inr (Enveloped env)"
  shows "kw_limit kw \<noteq> None \<and> kw_offset kw \<noteq> None"
proof (cases "kw_id kw")
  case (Some i)
  with assms show ?thesis
    by (simp add: query_service_def split: sum.splits)
next
  case None
  show ?thesis
  proof (rule ccontr)
    assume "\<not> (kw_limit kw \<noteq> None \<and> kw_offset kw \<noteq> None)"
    then have "kw_limit kw = None \<or> kw_offset kw = None" by blast
    from query_service_plain [OF None this, of d stored] assms show False by simp
  qed
qed

text \<open>
  C2. The claim has the total of the Envelope equal the number of matching entities. With
  three stored entities, no criteria, limit 2 and offset 0, the service passes
  \<open>count - 1\<close> to \<open>set_range\<close> and the Envelope carries the total 2.
\<close>

theorem total_is_count_minus_one:
  "query_service example_deps [3, 5, 2]
     \<lparr>kw_id = None, kw_limit = Some (Some 2), kw_offset = Some (Some 0),
      kw_criteria = None, kw_sort = None\<rparr>
   = Inr (Enveloped \<lparr>env_items = [3, 5], env_offset = Some 0, env_limit = Some 2, env_total = Some 2\<rparr>)"
  by (simp add: query_service_paginated matching_rows_def sorted_rows_def)

text \<open>
  C3. For a call with a sort argument, a limit \<open>l\<close> and an offset \<open>off\<close> (and no
  identifier), the result is an Envelope whose items are the matching entities, sorted as a
  whole, from position \<open>off\<close> on and at most \<open>l\<close> of them: the service asks the
  repository for the slice before it asks for the sort, and the repository of the spec
  applies both when it fetches, the sort first.
\<close>

theorem envelope_items_sorted_then_sliced:
  fixes d :: "('e, 'i, 'd, 'c, 's) deps"
  assumes "kw_id kw = None" "kw_limit kw = Some (Some l)" "kw_offset kw = Some (Some off)"
    and "kw_sort kw = Some k" "0 \<le> off" "0 \<le> l"
  shows "\<exists>env. query_service d stored kw = Inr (Enveloped env)
           \<and> env_items env =
               take (nat l) (drop (nat off) (order_by d k (matching_rows d stored kw)))"
  using assms by (simp add: query_service_paginated sorted_rows_def)

theorem envelope_items_sorted_then_sliced_witness:
  "\<exists>env. query_service example_deps [5, 3, 7, 4, 2]
       \<lparr>kw_id = None, kw_limit = Some (Some 2), kw_offset = Some (Some 1),
        kw_criteria = Some (Mapping 3), kw_sort = Some False\<rparr> = Inr (Enveloped env)
     \<and> env_items env = [4, 5]"
proof -
  let ?kw = "\<lparr>kw_id = None, kw_limit = Some (Some 2), kw_offset = Some (Some 1),
        kw_criteria = Some (Mapping (3::nat)), kw_sort = Some False\<rparr> :: (nat, nat, bool) kwargs"
  have m: "take (nat 2) (drop (nat 1)
      (order_by example_deps False (matching_rows example_deps [5, 3, 7, 4, 2] ?kw))) = [4, 5]"
    by (simp add: matching_rows_def example_deps_def)
  have "\<exists>env. query_service example_deps [5, 3, 7, 4, 2] ?kw = Inr (Enveloped env)
     \<and> env_items env = take (nat 2) (drop (nat 1)
         (order_by example_deps False (matching_rows example_deps [5, 3, 7, 4, 2] ?kw)))"
    by (rule envelope_items_sorted_then_sliced) simp_all
  then show ?thesis
    unfolding m .
qed

text \<open>
  C10. A call answers with an Envelope only if both \<open>limit\<close> and \<open>offset\<close> are among
  the keyword arguments. When exactly one of them is (and no identifier), the answer is the
  answer of the same call without it: the plain list of all matching entities, sorted if a
  sort argument was given.
\<close>

theorem envelope_only_with_limit_and_offset:
  fixes d :: "('e, 'i, 'd, 'c, 's) deps"
  shows "(query_service d stored kw = Inr (Enveloped env) \<longrightarrow>
            kw_limit kw \<noteq> None \<and> kw_offset kw \<noteq> None)
     \<and> (kw_id kw = None \<and> (kw_limit kw = None) \<noteq> (kw_offset kw = None) \<longrightarrow>
            query_service d stored kw = query_service d stored (kw\<lparr>kw_limit := None, kw_offset := None\<rparr>)
          \<and> query_service d stored kw =
              Inr (Plain (sorted_rows (order_by d) (kw_sort kw) (matching_rows d stored kw))))"
proof -
  let ?kw' = "kw\<lparr>kw_limit := None, kw_offset := None\<rparr>"
  let ?plain = "Inr (Plain (sorted_rows (order_by d) (kw_sort kw) (matching_rows d stored kw)))
    :: error + 'e response"
  have a: "query_service d stored kw = Inr (Enveloped env) \<longrightarrow>
            kw_limit kw \<noteq> None \<and> kw_offset kw \<noteq> None"
    using query_service_enveloped_only [of d stored kw env] by blast
  have b: "query_service d stored kw = ?plain"
    if h: "kw_id kw = None" "(kw_limit kw = None) \<noteq> (kw_offset kw = None)"
  proof -
    from h(2) have "kw_limit kw = None \<or> kw_offset kw = None" by auto
    with h(1) show ?thesis by (rule query_service_plain)
  qed
  have c: "query_service d stored ?kw' = ?plain" if h: "kw_id kw = None"
  proof -
    have 1: "kw_id ?kw' = None" using h by simp
    have 2: "kw_limit ?kw' = None \<or> kw_offset ?kw' = None" by simp
    have 3: "kw_sort ?kw' = kw_sort kw" by simp
    have 4: "matching_rows d stored ?kw' = matching_rows d stored kw"
      by (simp add: matching_rows_def)
    show ?thesis
      using query_service_plain [OF 1 2, of d stored] by (simp only: 3 4)
  qed
  have bc: "query_service d stored kw = query_service d stored ?kw' \<and> query_service d stored kw = ?plain"
    if h: "kw_id kw = None \<and> (kw_limit kw = None) \<noteq> (kw_offset kw = None)"
  proof -
    from h have i: "kw_id kw = None" and x: "(kw_limit kw = None) \<noteq> (kw_offset kw = None)"
      by (rule conjunct1, rule conjunct2)
    have 1: "query_service d stored kw = ?plain" using i x by (rule b)
    have 2: "query_service d stored ?kw' = ?plain" using i by (rule c)
    show ?thesis unfolding 1 2 by (rule conjI) (rule refl)+
  qed
  have bc': "kw_id kw = None \<and> (kw_limit kw = None) \<noteq> (kw_offset kw = None) \<longrightarrow>
      query_service d stored kw = query_service d stored ?kw' \<and> query_service d stored kw = ?plain"
    by (rule impI) (rule bc)
  show ?thesis
    using a bc' by (rule conjI)
qed

theorem envelope_only_with_limit_and_offset_witness:
  "query_service example_deps [3, 5, 2]
     \<lparr>kw_id = None, kw_limit = Some (Some 2), kw_offset = None,
      kw_criteria = None, kw_sort = Some False\<rparr> = Inr (Plain [2, 3, 5])"
proof -
  let ?kw = "\<lparr>kw_id = None, kw_limit = Some (Some 2), kw_offset = None,
      kw_criteria = None, kw_sort = Some False\<rparr> :: (nat, nat, bool) kwargs"
  have h: "kw_id ?kw = None \<and> (kw_limit ?kw = None) \<noteq> (kw_offset ?kw = None)"
    by simp
  have v: "sorted_rows (order_by example_deps) (kw_sort ?kw)
      (matching_rows example_deps [3, 5, 2] ?kw) = [2, 3, 5]"
    by (simp add: sorted_rows_def matching_rows_def example_deps_def)
  have "query_service example_deps [3, 5, 2] ?kw =
      Inr (Plain (sorted_rows (order_by example_deps) (kw_sort ?kw)
        (matching_rows example_deps [3, 5, 2] ?kw)))"
    using h envelope_only_with_limit_and_offset [of example_deps "[3, 5, 2]" ?kw]
    by blast
  then show ?thesis
    unfolding v .
qed

end
